theory Spec2Isabelle
  imports Main "HOL-Library.Sublist"
begin

section \<open>The verification script \<^verbatim>\<open>verify_theme_package.py\<close>\<close>

text \<open>
  The script drives a browser through the Playwright library: it opens the Storybook
  story, waits for a heading inside the preview iframe and saves a screenshot.
  Everything the script does is a call into the library, so the model is a program over
  an explicit world: the calls made so far, the files on disk, the page's location and
  whether the driver and the browser are running. What the library and the served page
  answer is not decided by the script; it is the record \<open>env\<close>, a parameter of every
  definition. A raised exception is the \<open>Inl\<close> of a sum.
\<close>

subsection \<open>Library calls, exceptions, environment and world\<close>

type_synonym bytes = string

text \<open>
  One constructor for each library call the script makes, with the arguments it passes.
  A keyword argument that a call may leave out is an option: \<open>None\<close> is "not passed".
\<close>

datatype call =
    Sync_playwright_enter
  | Chromium_launch bool
  | New_page
  | Goto string
  | Frame_locator string
  | Get_by_role string string "bool option"
  | To_be_visible nat
  | Screenshot string "bool option"
  | Browser_close
  | Sync_playwright_exit

text \<open>
  An exception is a class and a message. The classes that matter here: Python's built-in
  \<open>AssertionError\<close>, the library's \<open>TimeoutError\<close>, and \<open>Error\<close> for every other one.
\<close>

datatype exn_class = AssertionError | TimeoutError | Error

datatype exn = Exn exn_class string

fun class_of :: "exn \<Rightarrow> exn_class" where
  "class_of (Exn c msg) = c"

type_synonym 'a result = "exn + 'a"

text \<open>
  An element of a frame, as the accessibility tree shows it: its role, its accessible name
  and the time, in milliseconds after a wait on it begins, from which it is visible
  (\<open>None\<close>: it never is).
\<close>

record element =
  el_role :: string
  el_name :: string
  el_visible_at :: "nat option"

text \<open>
  The environment of a run:
  \<^item> \<open>raises c\<close>: the exception the library call \<open>c\<close> raises, if it does (the browser cannot
    be started, the server is unreachable, the file cannot be written, ...);
  \<^item> \<open>frame_elements url sel\<close>: the elements which the page at \<open>url\<close> shows in the frame
    selected by \<open>sel\<close>;
  \<^item> \<open>boundary_counts\<close>: whether an element that becomes visible exactly when the timeout
    elapses still satisfies the wait (the library decides);
  \<^item> \<open>viewport_png\<close>, \<open>full_page_png\<close>: what the browser renders of the loaded page, in the
    current viewport and over the whole scrollable page.
\<close>

record env =
  raises :: "call \<Rightarrow> exn option"
  frame_elements :: "string \<Rightarrow> string \<Rightarrow> element list"
  boundary_counts :: bool
  viewport_png :: bytes
  full_page_png :: bytes

text \<open>
  The world: \<open>driver_running\<close> between the entry and the exit of the \<open>with\<close> block;
  \<open>browser_open\<close> when a browser was launched and \<open>browser.close()\<close> has not been called;
  the page's \<open>location\<close>; the \<open>files\<close> on disk by path; the \<open>trace\<close> of library calls;
  \<open>sys_argv\<close> and \<open>os_environ\<close>, the command line and the environment variables of the
  process, which any code of the process can read.
\<close>

record world =
  driver_running :: bool
  browser_open :: bool
  location :: string
  files :: "string \<rightharpoonup> bytes"
  trace :: "call list"
  sys_argv :: "string list"
  os_environ :: "string \<rightharpoonup> string"

text \<open>The handles the library returns. They carry what later calls depend on.\<close>

datatype playwright = Playwright
datatype browser = Browser
datatype page = Page
datatype frame_locator = FrameLoc string
datatype locator = RoleLoc frame_locator string string "bool option"

definition init_world :: "(string \<rightharpoonup> bytes) \<Rightarrow> world" where
  "init_world fs =
     \<lparr>driver_running = False, browser_open = False, location = [], files = fs, trace = [],
      sys_argv = [], os_environ = Map.empty\<rparr>"

definition log_call :: "call \<Rightarrow> world \<Rightarrow> world" where
  "log_call c w = w\<lparr>trace := trace w @ [c]\<rparr>"

text \<open>Sequencing: the second step runs only when the first returned; an exception skips it.\<close>

definition and_then ::
  "(world \<Rightarrow> 'a result \<times> world) \<Rightarrow> ('a \<Rightarrow> world \<Rightarrow> 'b result \<times> world) \<Rightarrow> world \<Rightarrow> 'b result \<times> world"
where
  "and_then m f w = (case m w of (Inl e, w') \<Rightarrow> (Inl e, w') | (Inr x, w') \<Rightarrow> f x w')"

text \<open>
  A library call that can fail: the call is recorded, then it raises what the environment
  says, or has its effect and returns.
\<close>

definition lib_call ::
  "env \<Rightarrow> call \<Rightarrow> (world \<Rightarrow> 'a \<times> world) \<Rightarrow> world \<Rightarrow> 'a result \<times> world"
where
  "lib_call e c eff w =
     (let w1 = log_call c w in
      case raises e c of
        Some x \<Rightarrow> (Inl x, w1)
      | None \<Rightarrow> (case eff w1 of (r, w2) \<Rightarrow> (Inr r, w2)))"

subsection \<open>The library operations the script uses\<close>

text \<open>
  Modelled from the spec: \<^verbatim>\<open>p.chromium.launch\<close>, \<^verbatim>\<open>browser.new_page\<close>, \<^verbatim>\<open>page.goto\<close>,
  \<^verbatim>\<open>page.screenshot\<close> and \<^verbatim>\<open>browser.close\<close> are Playwright's, not code of this repository.
  The spec names their effects: start a browser process, open a page, navigate to the
  URL, write the image to the path (overwriting a file that is there), terminate the
  browser process.
\<close>

definition launch :: "env \<Rightarrow> playwright \<Rightarrow> bool \<Rightarrow> world \<Rightarrow> browser result \<times> world" where
  "launch e p headless =
     lib_call e (Chromium_launch headless) (\<lambda>w. (Browser, w\<lparr>browser_open := True\<rparr>))"

definition new_page :: "env \<Rightarrow> browser \<Rightarrow> world \<Rightarrow> page result \<times> world" where
  "new_page e b = lib_call e New_page (\<lambda>w. (Page, w))"

definition goto :: "env \<Rightarrow> page \<Rightarrow> string \<Rightarrow> world \<Rightarrow> unit result \<times> world" where
  "goto e pg url = lib_call e (Goto url) (\<lambda>w. ((), w\<lparr>location := url\<rparr>))"

definition close :: "env \<Rightarrow> browser \<Rightarrow> world \<Rightarrow> unit result \<times> world" where
  "close e b = lib_call e Browser_close (\<lambda>w. ((), w\<lparr>browser_open := False\<rparr>))"

text \<open>
  Modelled from the spec: the extent of \<^verbatim>\<open>page.screenshot\<close>. The library captures the whole
  scrollable page when \<^verbatim>\<open>full_page=True\<close> is passed and the current viewport otherwise
  (its documented default).
\<close>

definition capture :: "env \<Rightarrow> bool option \<Rightarrow> bytes" where
  "capture e full_page = (if full_page = Some True then full_page_png e else viewport_png e)"

definition screenshot ::
  "env \<Rightarrow> page \<Rightarrow> string \<Rightarrow> bool option \<Rightarrow> world \<Rightarrow> unit result \<times> world"
where
  "screenshot e pg path full_page =
     lib_call e (Screenshot path full_page)
       (\<lambda>w. ((), w\<lparr>files := (files w)(path \<mapsto> capture e full_page)\<rparr>))"

text \<open>
  \<^verbatim>\<open>page.frame_locator\<close> and \<^verbatim>\<open>get_by_role\<close> build locators; they look nothing up and
  cannot fail.
\<close>

definition frame_locator :: "page \<Rightarrow> string \<Rightarrow> world \<Rightarrow> frame_locator result \<times> world" where
  "frame_locator pg sel w = (Inr (FrameLoc sel), log_call (Frame_locator sel) w)"

definition get_by_role ::
  "frame_locator \<Rightarrow> string \<Rightarrow> string \<Rightarrow> bool option \<Rightarrow> world \<Rightarrow> locator result \<times> world"
where
  "get_by_role fl role name exact w =
     (Inr (RoleLoc fl role name exact), log_call (Get_by_role role name exact) w)"

text \<open>
  Modelled from the spec: how \<^verbatim>\<open>get_by_role\<close> compares the \<^verbatim>\<open>name\<close> it is given with an
  element's accessible name. This is Playwright's matching, not code of this repository:
  with \<^verbatim>\<open>exact=True\<close> the whole string, case-sensitively; otherwise (the default) a
  substring, case-insensitively.
\<close>

definition lower :: "char \<Rightarrow> char" where
  "lower c =
     (case map_of (zip ''ABCDEFGHIJKLMNOPQRSTUVWXYZ'' ''abcdefghijklmnopqrstuvwxyz'') c of
        Some d \<Rightarrow> d
      | None \<Rightarrow> c)"

definition is_substring :: "string \<Rightarrow> string \<Rightarrow> bool" where
  "is_substring p s = list_ex (prefix p) (suffixes s)"

definition name_matches :: "bool option \<Rightarrow> string \<Rightarrow> string \<Rightarrow> bool" where
  "name_matches exact pat nm =
     (if exact = Some True then nm = pat else is_substring (map lower pat) (map lower nm))"

fun selects :: "locator \<Rightarrow> element \<Rightarrow> bool" where
  "selects (RoleLoc fl role name exact) el =
     (el_role el = role \<and> name_matches exact name (el_name el))"

fun frame_of :: "locator \<Rightarrow> string" where
  "frame_of (RoleLoc (FrameLoc sel) role name exact) = sel"

text \<open>
  Modelled from the spec: \<^verbatim>\<open>expect(locator).to_be_visible(timeout=t)\<close>, Playwright's
  bounded wait. It returns when an element the locator selects is visible before the
  timeout elapses, and raises otherwise; at exactly the timeout the library decides.
  What it raises is the library's choice: \<open>expect\<close> is its assertion interface, and an
  assertion that does not hold by the timeout raises Python's \<open>AssertionError\<close> (the
  library's \<open>TimeoutError\<close> is what its actions and navigations raise).
\<close>

definition expect_failed :: exn where
  "expect_failed = Exn AssertionError ''Locator expected to be visible''"

definition visible_within :: "env \<Rightarrow> nat \<Rightarrow> element \<Rightarrow> bool" where
  "visible_within e timeout el =
     (case el_visible_at el of
        None \<Rightarrow> False
      | Some t \<Rightarrow> t < timeout \<or> (t = timeout \<and> boundary_counts e))"

definition found :: "env \<Rightarrow> locator \<Rightarrow> nat \<Rightarrow> string \<Rightarrow> bool" where
  "found e loc timeout url =
     list_ex (\<lambda>el. selects loc el \<and> visible_within e timeout el)
       (frame_elements e url (frame_of loc))"

definition to_be_visible :: "env \<Rightarrow> locator \<Rightarrow> nat \<Rightarrow> world \<Rightarrow> unit result \<times> world" where
  "to_be_visible e loc timeout w =
     (let w1 = log_call (To_be_visible timeout) w in
      if found e loc timeout (location w1) then (Inr (), w1)
      else (Inl expect_failed, w1))"

text \<open>
  The \<^verbatim>\<open>with sync_playwright() as p:\<close> block. Entering starts the driver (or raises, and
  then the body and the exit do not run). Once entered, the exit runs however the body
  ends. It stops the driver and lets an exception of the body pass; when the exit itself
  raises, that exception is the one that leaves the block.
\<close>

definition with_sync_playwright ::
  "env \<Rightarrow> (playwright \<Rightarrow> world \<Rightarrow> 'a result \<times> world) \<Rightarrow> world \<Rightarrow> 'a result \<times> world"
where
  "with_sync_playwright e body w =
     (let w1 = log_call Sync_playwright_enter w in
      case raises e Sync_playwright_enter of
        Some x \<Rightarrow> (Inl x, w1)
      | None \<Rightarrow>
          (case body Playwright (w1\<lparr>driver_running := True\<rparr>) of
             (r, w2) \<Rightarrow>
               (let w3 = log_call Sync_playwright_exit w2 in
                case raises e Sync_playwright_exit of
                  Some x \<Rightarrow> (Inl x, w3)
                | None \<Rightarrow> (r, w3\<lparr>driver_running := False\<rparr>))))"

subsection \<open>The script\<close>

definition story_url :: string where
  "story_url = ''http://localhost:6006/?path=/story/industrymarkdown-slidepresentationwiththemeswitcher--theme-switcher-demo''"

definition preview_iframe :: string where
  "preview_iframe = ''#storybook-preview-iframe''"

definition heading_name :: string where
  "heading_name = ''Theme Switcher Demo''"

definition png_path :: string where
  "png_path = ''jules-scratch/verification/theme-packaging-verification.png''"

definition test_theme_packaging :: "env \<Rightarrow> page \<Rightarrow> world \<Rightarrow> unit result \<times> world" where
  "test_theme_packaging e pg =
     and_then (goto e pg story_url) (\<lambda>_.
     and_then (frame_locator pg preview_iframe) (\<lambda>iframe_locator.
     and_then (get_by_role iframe_locator ''heading'' heading_name None) (\<lambda>loc.
     and_then (to_be_visible e loc 30000) (\<lambda>_.
     screenshot e pg png_path None))))"

definition main :: "env \<Rightarrow> world \<Rightarrow> unit result \<times> world" where
  "main e =
     with_sync_playwright e (\<lambda>p.
       and_then (launch e p True) (\<lambda>browser.
       and_then (new_page e browser) (\<lambda>pg.
       and_then (test_theme_packaging e pg) (\<lambda>_.
       close e browser))))"

text \<open>
  The process: \<^verbatim>\<open>if __name__ == "__main__": main()\<close>. The interpreter puts the command
  line and the environment variables of the invocation where the process can read them,
  then runs \<open>main\<close>. The process exits with status 0 when \<open>main\<close> returns and with status 1
  on an exception nobody caught.
\<close>

record invocation =
  argv :: "string list"
  environ :: "string \<rightharpoonup> string"

definition exit_status :: "unit result \<Rightarrow> nat" where
  "exit_status r = (case r of Inl x \<Rightarrow> 1 | Inr u \<Rightarrow> 0)"

definition script :: "invocation \<Rightarrow> env \<Rightarrow> world \<Rightarrow> nat \<times> world" where
  "script i e w =
     (case main e (w\<lparr>sys_argv := argv i, os_environ := environ i\<rparr>) of
        (r, w') \<Rightarrow> (exit_status r, w'))"

subsection \<open>Vocabulary of the properties\<close>

text \<open>The calls of a run in which nothing fails, in the order of the source.\<close>

definition script_steps :: "call list" where
  "script_steps =
     [Chromium_launch True, New_page, Goto story_url, Frame_locator preview_iframe,
      Get_by_role ''heading'' heading_name None, To_be_visible 30000,
      Screenshot png_path None, Browser_close]"

definition script_calls :: "call list" where
  "script_calls = Sync_playwright_enter # script_steps @ [Sync_playwright_exit]"

text \<open>No library call of the script raises for a reason of its own.\<close>

definition fault_free :: "env \<Rightarrow> bool" where
  "fault_free e = list_all (\<lambda>c. raises e c = None) script_calls"

text \<open>The calls before the wait do not raise: the run reaches the wait.\<close>

definition reaches_wait :: "env \<Rightarrow> bool" where
  "reaches_wait e = list_all (\<lambda>c. raises e c = None) (Sync_playwright_enter # take 3 script_steps)"

text \<open>The locator the script hands to the wait, and whether that wait is satisfied.\<close>

definition heading_locator :: locator where
  "heading_locator = RoleLoc (FrameLoc preview_iframe) ''heading'' heading_name None"

definition heading_found :: "env \<Rightarrow> bool" where
  "heading_found e = found e heading_locator 30000 story_url"

text \<open>
  No element the locator selects is visible by the time the timeout has elapsed: each
  shows later, or never.
\<close>

definition never_in_time :: "env \<Rightarrow> bool" where
  "never_in_time e =
     list_all
       (\<lambda>el. \<not> selects heading_locator el \<or>
             (case el_visible_at el of None \<Rightarrow> True | Some t \<Rightarrow> 30000 < t))
       (frame_elements e story_url preview_iframe)"

text \<open>How many of the steps between entering and leaving the block a run performs.\<close>

definition steps_done :: "env \<Rightarrow> nat" where
  "steps_done e =
     (if raises e (Chromium_launch True) \<noteq> None then 1
      else if raises e New_page \<noteq> None then 2
      else if raises e (Goto story_url) \<noteq> None then 3
      else if \<not> heading_found e then 6
      else if raises e (Screenshot png_path None) \<noteq> None then 7
      else 8)"

text \<open>
  Whether a step fails: the wait when the heading is not found, the two locator
  constructions never, every other call when the environment makes it raise.
\<close>

fun step_fails :: "env \<Rightarrow> call \<Rightarrow> bool" where
  "step_fails e (To_be_visible t) = (\<not> found e heading_locator t story_url)"
| "step_fails e (Frame_locator sel) = False"
| "step_fails e (Get_by_role role name exact) = False"
| "step_fails e c = (raises e c \<noteq> None)"

text \<open>
  The steps up to and including the first one that fails (all of them when none does).
\<close>

definition upto_first_failure :: "env \<Rightarrow> call list \<Rightarrow> call list" where
  "upto_first_failure e cs =
     takeWhile (\<lambda>c. \<not> step_fails e c) cs @ take 1 (dropWhile (\<lambda>c. \<not> step_fails e c) cs)"

text \<open>The class of the exception a result carries, if it carries one.\<close>

definition raised_class :: "'a result \<Rightarrow> exn_class option" where
  "raised_class r = (case r of Inl x \<Rightarrow> Some (class_of x) | Inr v \<Rightarrow> None)"

text \<open>The files a run of the process leaves, started on the files \<open>fs\<close>.\<close>

definition files_after :: "invocation \<Rightarrow> env \<Rightarrow> (string \<rightharpoonup> bytes) \<Rightarrow> (string \<rightharpoonup> bytes)" where
  "files_after i e fs = files (snd (script i e (init_world fs)))"

fun is_wait :: "call \<Rightarrow> bool" where
  "is_wait (To_be_visible t) = True"
| "is_wait c = False"

fun is_screenshot :: "call \<Rightarrow> bool" where
  "is_screenshot (Screenshot path full_page) = True"
| "is_screenshot c = False"

subsection \<open>Concrete environments\<close>

definition no_faults :: "call \<Rightarrow> exn option" where
  "no_faults c = None"

definition heading_at :: "string \<Rightarrow> nat option \<Rightarrow> string \<Rightarrow> string \<Rightarrow> element list" where
  "heading_at nm t url sel =
     (if url = story_url \<and> sel = preview_iframe
      then [\<lparr>el_role = ''heading'', el_name = nm, el_visible_at = t\<rparr>] else [])"

text \<open>The story is served and its heading shows after 1.2 seconds.\<close>

definition env_ok :: env where
  "env_ok =
     \<lparr>raises = no_faults, frame_elements = heading_at ''Theme Switcher Demo'' (Some 1200),
      boundary_counts = False, viewport_png = ''viewport'', full_page_png = ''whole page''\<rparr>"

text \<open>The heading never shows.\<close>

definition env_never :: env where
  "env_never = env_ok\<lparr>frame_elements := heading_at ''Theme Switcher Demo'' None\<rparr>"

text \<open>The only heading of the frame has a longer name.\<close>

definition env_extended :: env where
  "env_extended =
     env_ok\<lparr>frame_elements := heading_at ''Theme Switcher Demo Extended'' (Some 1200)\<rparr>"

text \<open>A disk that already holds a screenshot of an earlier run, and another file.\<close>

definition old_files :: "string \<rightharpoonup> bytes" where
  "old_files = [png_path \<mapsto> ''old image'', ''README.md'' \<mapsto> ''notes'']"

text \<open>An invocation with arguments and environment variables.\<close>

definition other_run :: invocation where
  "other_run =
     \<lparr>argv = [''verify_theme_package.py'', ''--url'', ''http://localhost:9000''],
      environ = [''PWDEBUG'' \<mapsto> ''1'', ''STORYBOOK_URL'' \<mapsto> ''http://localhost:9000'']\<rparr>"

definition plain_run :: invocation where
  "plain_run = \<lparr>argv = [''verify_theme_package.py''], environ = Map.empty\<rparr>"

lemmas run_defs = main_def with_sync_playwright_def and_then_def launch_def new_page_def
  close_def test_theme_packaging_def goto_def frame_locator_def get_by_role_def
  to_be_visible_def screenshot_def lib_call_def log_call_def capture_def Let_def

section \<open>Properties\<close>

subsection \<open>Shared lemmas\<close>

lemma is_substring_iff: "is_substring p s \<longleftrightarrow> (\<exists>a b. s = a @ p @ b)"
proof
  assume "is_substring p s"
  then obtain x where "suffix x s" and "prefix p x"
    by (auto simp: is_substring_def list_ex_iff)
  then show "\<exists>a b. s = a @ p @ b"
    by (auto simp: prefix_def suffix_def)
next
  assume "\<exists>a b. s = a @ p @ b"
  then obtain a b where s: "s = a @ p @ b" by blast
  have "suffix (p @ b) s" using s by (simp add: suffix_def)
  moreover have "prefix p (p @ b)" by simp
  ultimately show "is_substring p s"
    unfolding is_substring_def list_ex_iff by (metis in_set_suffixes)
qed

lemma fault_free_iff:
  "fault_free e \<longleftrightarrow>
     raises e Sync_playwright_enter = None \<and> raises e (Chromium_launch True) = None \<and>
     raises e New_page = None \<and> raises e (Goto story_url) = None \<and>
     raises e (Frame_locator preview_iframe) = None \<and>
     raises e (Get_by_role ''heading'' heading_name None) = None \<and>
     raises e (To_be_visible 30000) = None \<and>
     raises e (Screenshot png_path None) = None \<and> raises e Browser_close = None \<and>
     raises e Sync_playwright_exit = None"
  by (simp add: fault_free_def script_calls_def script_steps_def)

lemma reaches_wait_iff:
  "reaches_wait e \<longleftrightarrow>
     raises e Sync_playwright_enter = None \<and> raises e (Chromium_launch True) = None \<and>
     raises e New_page = None \<and> raises e (Goto story_url) = None"
  by (simp add: reaches_wait_def script_steps_def)


lemma main_success:
  assumes "fault_free e" and "heading_found e"
  shows "main e w =
     (Inr (), w\<lparr>driver_running := False, browser_open := False, location := story_url,
                files := (files w)(png_path \<mapsto> viewport_png e),
                trace := trace w @ script_calls\<rparr>)"
  using assms
  by (simp add: fault_free_iff heading_found_def heading_locator_def run_defs
      script_calls_def script_steps_def)

lemma main_timeout:
  assumes "reaches_wait e" and "\<not> heading_found e"
  shows "main e w =
     (Inl (case raises e Sync_playwright_exit of None \<Rightarrow> expect_failed | Some x \<Rightarrow> x),
      w\<lparr>driver_running := (raises e Sync_playwright_exit \<noteq> None), browser_open := True,
        location := story_url,
        trace := trace w @ Sync_playwright_enter # take 6 script_steps @ [Sync_playwright_exit]\<rparr>)"
  using assms
  by (simp add: reaches_wait_iff heading_found_def heading_locator_def run_defs script_steps_def
      split: option.splits)

lemma main_files:
  "files (snd (main e w)) = files w \<or>
   files (snd (main e w)) = (files w)(png_path \<mapsto> viewport_png e)"
  by (simp add: run_defs split: option.splits)

lemma main_trace_eq:
  "trace (snd (main e w)) =
     trace w @
       (if raises e Sync_playwright_enter = None
        then Sync_playwright_enter # take (steps_done e) script_steps @ [Sync_playwright_exit]
        else [Sync_playwright_enter])"
  by (simp add: run_defs steps_done_def heading_found_def heading_locator_def script_steps_def
      split: option.splits)

lemma steps_done_bounds: "1 \<le> steps_done e \<and> steps_done e \<le> 8"
  by (simp add: steps_done_def)

lemma main_failed_wait:
  assumes "\<not> heading_found e"
  shows "fst (main e w) \<noteq> Inr ()" and "files (snd (main e w)) = files w"
  using assms
  by (simp_all add: run_defs heading_found_def heading_locator_def split: option.splits)

lemma main_independent_of_files:
  "fst (main e (w\<lparr>files := fs\<rparr>)) = fst (main e w) \<and>
   trace (snd (main e (w\<lparr>files := fs\<rparr>))) = trace (snd (main e w))"
  by (simp add: run_defs split: option.splits)

lemma main_driver:
  assumes "raises e Sync_playwright_enter = None" and "raises e Sync_playwright_exit = None"
  shows "\<not> driver_running (snd (main e w))"
  using assms by (simp add: run_defs split: option.splits prod.splits)

lemma main_exit_raises:
  assumes "raises e Sync_playwright_enter = None" and "raises e Sync_playwright_exit = Some x"
  shows "fst (main e w) = Inl x"
  using assms by (simp add: run_defs split: option.splits prod.splits)

lemma main_invocation:
  "main e (w\<lparr>sys_argv := a, os_environ := v\<rparr>) =
     (fst (main e w), (snd (main e w))\<lparr>sys_argv := a, os_environ := v\<rparr>)"
  by (simp add: run_defs split: option.splits)

lemma script_fst: "fst (script i e w) = exit_status (fst (main e w))"
  by (simp add: script_def main_invocation)

lemma script_snd:
  "snd (script i e w) = (snd (main e w))\<lparr>sys_argv := argv i, os_environ := environ i\<rparr>"
  by (simp add: script_def main_invocation)

lemma upto_first_failure_steps:
  "upto_first_failure e script_steps = take (steps_done e) script_steps"
  by (simp add: upto_first_failure_def steps_done_def script_steps_def heading_found_def)

lemma exit_status_0: "exit_status r = 0 \<longleftrightarrow> r = Inr ()"
  by (cases r) (simp_all add: exit_status_def)

lemma name_matches_contains:
  "map lower nm = a @ map lower pat @ b \<Longrightarrow> name_matches None pat nm"
  unfolding name_matches_def using is_substring_iff by auto

lemma heading_foundI:
  assumes "el \<in> set (frame_elements e story_url preview_iframe)"
    and "el_role el = ''heading''"
    and "name_matches None heading_name (el_name el)"
    and "el_visible_at el = Some t" and "t < 30000"
  shows "heading_found e"
  using assms
  unfolding heading_found_def found_def heading_locator_def list_ex_iff visible_within_def
  by auto

lemma never_in_time_not_found: "never_in_time e \<Longrightarrow> \<not> heading_found e"
  unfolding never_in_time_def heading_found_def found_def list_ex_iff list_all_iff
    visible_within_def
  by (auto simp: heading_locator_def split: option.splits)


lemma main_failed_wait_trace:
  assumes "\<not> heading_found e"
  shows "filter is_screenshot (trace (snd (main e w))) = filter is_screenshot (trace w)"
    and "Browser_close \<in> set (trace (snd (main e w))) \<longleftrightarrow> Browser_close \<in> set (trace w)"
  using assms
  by (simp_all add: run_defs heading_found_def heading_locator_def split: option.splits)

lemma main_waits_once:
  "length (filter is_wait (trace (snd (main e w)))) \<le> Suc (length (filter is_wait (trace w)))"
  by (simp add: run_defs split: option.splits)

lemma main_shoots_once:
  "length (filter is_screenshot (trace (snd (main e w))))
     \<le> Suc (length (filter is_screenshot (trace w)))"
  by (simp add: run_defs split: option.splits)

lemma main_last_call:
  "raises e Sync_playwright_enter = None \<Longrightarrow> last (trace (snd (main e w))) = Sync_playwright_exit"
  by (simp add: main_trace_eq)

lemma init_world_simps:
  "files (init_world fs) = fs" "trace (init_world fs) = []"
  "\<not> driver_running (init_world fs)" "\<not> browser_open (init_world fs)"
  by (simp_all add: init_world_def)

lemmas env_defs = env_ok_def env_never_def env_extended_def no_faults_def heading_at_def
  plain_run_def init_world_def old_files_def

lemmas eval_defs = run_defs script_def exit_status_def found_def visible_within_def
  name_matches_def is_substring_def lower_def heading_found_def heading_locator_def
  fault_free_def reaches_wait_def never_in_time_def script_calls_def script_steps_def
  story_url_def preview_iframe_def heading_name_def png_path_def

lemma env_ok_fault_free: "fault_free env_ok"
  by (simp add: fault_free_def script_calls_def script_steps_def env_defs)

lemma env_ok_found: "heading_found env_ok"
  by (simp add: eval_defs env_defs)

lemma env_never_reaches_wait: "reaches_wait env_never"
  by (simp add: reaches_wait_def script_steps_def env_defs)

lemma env_never_enter: "raises env_never Sync_playwright_enter = None"
  by (simp add: env_defs)

lemma env_never_exit: "raises env_never Sync_playwright_exit = None"
  by (simp add: env_defs)

lemma env_never_not_found: "\<not> heading_found env_never"
  by (rule never_in_time_not_found) (simp add: never_in_time_def env_defs)

lemma env_ok_images:
  "viewport_png env_ok = ''viewport''" "full_page_png env_ok = ''whole page''"
  by (simp_all add: env_ok_def)

lemma main_shot:
  assumes "reaches_wait e" and "heading_found e" and "raises e (Screenshot png_path None) = None"
  shows "files (snd (main e w)) = (files w)(png_path \<mapsto> viewport_png e)"
  using assms
  by (simp add: reaches_wait_iff heading_found_def heading_locator_def run_defs
      split: option.splits)

lemma in_trace_cases:
  assumes "c \<in> set (trace (snd (main e (init_world fs))))"
  shows "c \<in> set script_calls"
proof -
  have "set (take (steps_done e) script_steps) \<subseteq> set script_steps"
    by (rule set_take_subset)
  then show ?thesis
    using assms by (auto simp: main_trace_eq init_world_simps script_calls_def split: if_splits)
qed

lemma trace_screenshot:
  assumes "c \<in> set (trace (snd (main e (init_world fs))))" and "is_screenshot c"
  shows "c = Screenshot png_path None"
  using in_trace_cases [OF assms(1)] assms(2)
  by (auto simp: script_calls_def script_steps_def)

subsection \<open>The claims\<close>

text \<open>
  C1. If the heading with role \<open>heading\<close> and accessible name \<open>Theme Switcher Demo\<close> becomes
  visible in the preview iframe before the 30 seconds have elapsed (and no library call
  fails for a reason of its own), the run writes the screenshot to the fixed path and the
  process exits with status 0.
\<close>

theorem visible_heading_screenshot_exit_0:
  assumes "fault_free e"
    and "el \<in> set (frame_elements e story_url preview_iframe)"
    and "el_role el = ''heading''" and "el_name el = heading_name"
    and "el_visible_at el = Some t" and "t < 30000"
  shows "fst (script i e (init_world fs)) = 0 \<and>
         files (snd (script i e (init_world fs))) png_path = Some (capture e None) \<and>
         Screenshot png_path None \<in> set (trace (snd (script i e (init_world fs))))"
proof -
  have "name_matches None heading_name (el_name el)"
    using assms(4) name_matches_contains [of heading_name "[]" heading_name "[]"] by simp
  then have "heading_found e"
    using assms heading_foundI by blast
  then show ?thesis
    using assms(1)
    by (simp add: script_fst script_snd main_success exit_status_def capture_def
        script_calls_def script_steps_def)
qed

theorem visible_heading_screenshot_exit_0_witness:
  "fault_free env_ok \<and>
   \<lparr>el_role = ''heading'', el_name = ''Theme Switcher Demo'', el_visible_at = Some 1200\<rparr>
     \<in> set (frame_elements env_ok story_url preview_iframe) \<and>
   (1200::nat) < 30000 \<and>
   fst (script plain_run env_ok (init_world Map.empty)) = 0 \<and>
   files (snd (script plain_run env_ok (init_world Map.empty))) png_path = Some ''viewport''"
  using visible_heading_screenshot_exit_0 [of env_ok
      "\<lparr>el_role = ''heading'', el_name = ''Theme Switcher Demo'', el_visible_at = Some 1200\<rparr>"
      1200 plain_run Map.empty]
  by (simp add: env_defs fault_free_def script_calls_def script_steps_def heading_name_def
      capture_def)

text \<open>
  C2, as the code has it. If no element the locator selects becomes visible within the 30
  seconds, the process exits with a status other than 0, the files are as they were and no
  screenshot call is made. When the run reaches the wait (and the exit of the \<open>with\<close>
  block does not raise itself), what leaves \<open>main\<close> uncaught is the failed assertion of
  \<open>expect\<close>, an \<open>AssertionError\<close>.
\<close>

theorem failed_wait_raises_assertion_error:
  assumes "never_in_time e"
  shows "fst (script i e (init_world fs)) \<noteq> 0 \<and>
         files (snd (script i e (init_world fs))) = fs \<and>
         filter is_screenshot (trace (snd (script i e (init_world fs)))) = [] \<and>
         (reaches_wait e \<and> raises e Sync_playwright_exit = None \<longrightarrow>
            fst (main e (init_world fs)) = Inl expect_failed \<and>
            raised_class (fst (main e (init_world fs))) = Some AssertionError \<and>
            To_be_visible 30000 \<in> set (trace (snd (main e (init_world fs)))))"
proof -
  have nf: "\<not> heading_found e"
    using assms by (rule never_in_time_not_found)
  have "fst (script i e (init_world fs)) \<noteq> 0"
    using main_failed_wait(1) [OF nf] by (simp add: script_fst exit_status_0)
  moreover have "files (snd (script i e (init_world fs))) = fs"
    using main_failed_wait(2) [OF nf] by (simp add: script_snd init_world_simps)
  moreover have "filter is_screenshot (trace (snd (script i e (init_world fs)))) = []"
    using main_failed_wait_trace(1) [OF nf] by (simp add: script_snd init_world_simps)
  moreover have "reaches_wait e \<and> raises e Sync_playwright_exit = None \<longrightarrow>
            fst (main e (init_world fs)) = Inl expect_failed \<and>
            raised_class (fst (main e (init_world fs))) = Some AssertionError \<and>
            To_be_visible 30000 \<in> set (trace (snd (main e (init_world fs))))"
    using nf
    by (simp add: main_timeout script_steps_def raised_class_def expect_failed_def)
  ultimately show ?thesis by blast
qed

theorem failed_wait_raises_assertion_error_witness:
  "never_in_time env_never \<and> reaches_wait env_never \<and>
   raises env_never Sync_playwright_exit = None \<and>
   fst (script plain_run env_never (init_world Map.empty)) = 1 \<and>
   files (snd (script plain_run env_never (init_world Map.empty))) = Map.empty \<and>
   raised_class (fst (main env_never (init_world Map.empty))) = Some AssertionError"
proof -
  have n: "never_in_time env_never"
    by (simp add: never_in_time_def env_defs)
  have r: "reaches_wait env_never"
    by (simp add: reaches_wait_def script_steps_def env_defs)
  have x: "raises env_never Sync_playwright_exit = None"
    by (simp add: env_defs)
  have "fst (script plain_run env_never (init_world Map.empty)) = 1"
    using failed_wait_raises_assertion_error [OF n, of plain_run Map.empty] r x
    by (simp add: script_fst exit_status_def)
  then show ?thesis
    using failed_wait_raises_assertion_error [OF n, of plain_run Map.empty] n r x
    by (simp add: raised_class_def expect_failed_def)
qed

text \<open>
  C2 as stated fails in the class of the condition: when the heading never shows, the
  exception that leaves \<open>main\<close> is an \<open>AssertionError\<close>, not a \<open>TimeoutError\<close>.
\<close>

theorem timeout_error_class_counterexample:
  "raised_class (fst (main env_never (init_world Map.empty))) = Some AssertionError \<and>
   raised_class (fst (main env_never (init_world Map.empty))) \<noteq> Some TimeoutError"
  by (simp add: main_timeout [OF env_never_reaches_wait env_never_not_found]
      env_never_exit raised_class_def expect_failed_def)

text \<open>
  C3, as the code has it. Once the heading is found, the script captures a screenshot of
  the loaded page to the fixed path without asking for the full page: the call passes no
  \<open>full_page\<close>, so the image is the library's default extent, the current viewport.
\<close>

theorem found_heading_default_screenshot:
  assumes "reaches_wait e" and "heading_found e"
    and "raises e (Screenshot png_path None) = None"
  shows "files (snd (main e (init_world fs))) png_path = Some (viewport_png e) \<and>
         Screenshot png_path None \<in> set (trace (snd (main e (init_world fs)))) \<and>
         Screenshot png_path (Some True) \<notin> set (trace (snd (main e (init_world fs))))"
proof -
  have "steps_done e \<ge> 7"
    using assms by (simp add: steps_done_def reaches_wait_iff)
  moreover have "steps_done e \<le> 8"
    using steps_done_bounds by blast
  ultimately have "steps_done e = 7 \<or> steps_done e = 8"
    by arith
  then have "Screenshot png_path None \<in> set (trace (snd (main e (init_world fs))))"
    using assms(1) by (auto simp: main_trace_eq reaches_wait_iff script_steps_def)
  moreover have "Screenshot png_path (Some True) \<notin> set (trace (snd (main e (init_world fs))))"
    using in_trace_cases [of "Screenshot png_path (Some True)" e fs]
    by (auto simp: script_calls_def script_steps_def)
  ultimately show ?thesis
    using main_shot [OF assms] by simp
qed

theorem found_heading_default_screenshot_witness:
  "reaches_wait env_ok \<and> heading_found env_ok \<and>
   raises env_ok (Screenshot png_path None) = None \<and>
   files (snd (main env_ok (init_world old_files))) png_path = Some ''viewport'' \<and>
   viewport_png env_ok \<noteq> full_page_png env_ok"
proof -
  have r: "reaches_wait env_ok"
    by (simp add: reaches_wait_def script_steps_def env_defs)
  have s: "raises env_ok (Screenshot png_path None) = None"
    by (simp add: env_defs)
  show ?thesis
    using found_heading_default_screenshot [OF r env_ok_found s, of old_files] r s env_ok_found
    by (simp add: env_ok_images)
qed

text \<open>
  C3 as stated fails: on a page whose whole extent differs from its viewport, the file
  written is not the full-page capture, and no call asks for one.
\<close>

theorem screenshot_full_page_counterexample:
  "files (snd (main env_ok (init_world Map.empty))) png_path \<noteq> Some (full_page_png env_ok) \<and>
   Screenshot png_path (Some True) \<notin> set (trace (snd (main env_ok (init_world Map.empty))))"
  by (simp add: main_success [OF env_ok_fault_free env_ok_found] init_world_simps
      script_calls_def script_steps_def env_ok_images)

text \<open>
  C4, as the code has it. Every run performs an initial part of the linear sequence (start
  the browser, open a page, navigate to the fixed URL, take the frame handle, build the
  role/name locator, wait once, capture, close the browser): the steps up to and including
  the first one that fails, and nothing after it but the exit of the block, which follows
  once the block is entered. A run in which no step fails performs the whole sequence,
  and no run waits more than once.
\<close>

theorem run_stops_at_first_failing_step:
  "trace (snd (main e (init_world fs))) =
     (if raises e Sync_playwright_enter = None
      then Sync_playwright_enter # upto_first_failure e script_steps @ [Sync_playwright_exit]
      else [Sync_playwright_enter]) \<and>
   (fault_free e \<and> heading_found e \<longrightarrow> trace (snd (main e (init_world fs))) = script_calls) \<and>
   length (filter is_wait (trace (snd (main e (init_world fs))))) \<le> 1"
proof -
  have "trace (snd (main e (init_world fs))) =
     (if raises e Sync_playwright_enter = None
      then Sync_playwright_enter # upto_first_failure e script_steps @ [Sync_playwright_exit]
      else [Sync_playwright_enter])"
    by (simp add: main_trace_eq init_world_simps upto_first_failure_steps)
  moreover have "fault_free e \<and> heading_found e \<longrightarrow>
      trace (snd (main e (init_world fs))) = script_calls"
    by (simp add: main_success init_world_simps)
  moreover have "length (filter is_wait (trace (snd (main e (init_world fs))))) \<le> 1"
    using main_waits_once [of e "init_world fs"] by (simp add: init_world_simps)
  ultimately show ?thesis by blast
qed

theorem run_stops_at_first_failing_step_witness:
  "fault_free env_ok \<and> heading_found env_ok \<and>
   trace (snd (main env_ok (init_world Map.empty))) =
     [Sync_playwright_enter, Chromium_launch True, New_page, Goto story_url,
      Frame_locator preview_iframe, Get_by_role ''heading'' heading_name None,
      To_be_visible 30000, Screenshot png_path None, Browser_close, Sync_playwright_exit] \<and>
   step_fails env_never (To_be_visible 30000) \<and>
   trace (snd (main env_never (init_world Map.empty))) =
     [Sync_playwright_enter, Chromium_launch True, New_page, Goto story_url,
      Frame_locator preview_iframe, Get_by_role ''heading'' heading_name None,
      To_be_visible 30000, Sync_playwright_exit]"
proof -
  have f: "step_fails env_never (To_be_visible 30000)"
    using env_never_not_found by (simp add: heading_found_def)
  have u: "upto_first_failure env_never script_steps = take 6 script_steps"
    using env_never_not_found
    by (simp add: upto_first_failure_steps steps_done_def env_defs)
  have ok: "trace (snd (main env_ok (init_world Map.empty))) = script_calls"
    using run_stops_at_first_failing_step [of env_ok Map.empty] env_ok_fault_free env_ok_found
    by blast
  have "trace (snd (main env_never (init_world Map.empty))) =
     (if raises env_never Sync_playwright_enter = None
      then Sync_playwright_enter # upto_first_failure env_never script_steps
             @ [Sync_playwright_exit]
      else [Sync_playwright_enter])"
    using run_stops_at_first_failing_step [of env_never Map.empty] by (rule conjunct1)
  then have nv: "trace (snd (main env_never (init_world Map.empty))) =
      Sync_playwright_enter # take 6 script_steps @ [Sync_playwright_exit]"
    by (simp add: env_never_enter u)
  show ?thesis
    using env_ok_fault_free env_ok_found f
    by (simp add: ok nv script_calls_def script_steps_def)
qed

text \<open>
  C4 as stated fails: a run whose heading never shows does not perform the whole sequence;
  it neither captures a screenshot nor closes the browser.
\<close>

theorem every_run_whole_sequence_counterexample:
  "trace (snd (main env_never (init_world Map.empty))) \<noteq> script_calls \<and>
   Screenshot png_path None \<notin> set (trace (snd (main env_never (init_world Map.empty)))) \<and>
   Browser_close \<notin> set (trace (snd (main env_never (init_world Map.empty))))"
  by (simp add: main_timeout [OF env_never_reaches_wait env_never_not_found] init_world_simps
      script_calls_def script_steps_def)

text \<open>
  C5. The browser is launched at the start of the run and closed at the end of the path on
  which nothing fails. When the wait fails, \<open>browser.close()\<close> is not called: the browser
  that was launched is still open as far as the script's calls go.
\<close>

theorem browser_closed_on_success_path_only:
  "(fault_free e \<and> heading_found e \<longrightarrow>
      trace (snd (main e (init_world fs))) = script_calls \<and>
      \<not> browser_open (snd (main e (init_world fs)))) \<and>
   (\<not> heading_found e \<longrightarrow> Browser_close \<notin> set (trace (snd (main e (init_world fs))))) \<and>
   (reaches_wait e \<and> \<not> heading_found e \<longrightarrow>
      Chromium_launch True \<in> set (trace (snd (main e (init_world fs)))) \<and>
      browser_open (snd (main e (init_world fs))))"
proof -
  have "fault_free e \<and> heading_found e \<longrightarrow>
      trace (snd (main e (init_world fs))) = script_calls \<and>
      \<not> browser_open (snd (main e (init_world fs)))"
    by (simp add: main_success init_world_simps)
  moreover have "\<not> heading_found e \<longrightarrow>
      Browser_close \<notin> set (trace (snd (main e (init_world fs))))"
    using main_failed_wait_trace(2) [of e "init_world fs"] by (simp add: init_world_simps)
  moreover have "reaches_wait e \<and> \<not> heading_found e \<longrightarrow>
      Chromium_launch True \<in> set (trace (snd (main e (init_world fs)))) \<and>
      browser_open (snd (main e (init_world fs)))"
    by (simp add: main_timeout script_steps_def)
  ultimately show ?thesis by blast
qed

theorem browser_closed_on_success_path_only_witness:
  "fault_free env_ok \<and> heading_found env_ok \<and>
   last (butlast (trace (snd (main env_ok (init_world Map.empty))))) = Browser_close \<and>
   \<not> browser_open (snd (main env_ok (init_world Map.empty))) \<and>
   reaches_wait env_never \<and> \<not> heading_found env_never \<and>
   Browser_close \<notin> set (trace (snd (main env_never (init_world Map.empty)))) \<and>
   browser_open (snd (main env_never (init_world Map.empty)))"
  using browser_closed_on_success_path_only [of env_ok Map.empty]
    browser_closed_on_success_path_only [of env_never Map.empty]
    env_ok_fault_free env_ok_found env_never_reaches_wait env_never_not_found
  by (simp add: script_calls_def script_steps_def)

text \<open>
  C6. A run leaves the files as they were or with the one file at the fixed path replaced
  by the capture, whatever was there before; it makes at most one screenshot call, to that
  path; and its outcome and calls do not depend on the files it starts from.
\<close>

theorem only_the_png_is_written:
  "(files (snd (main e (init_world fs))) = fs \<or>
    files (snd (main e (init_world fs))) = fs(png_path \<mapsto> viewport_png e)) \<and>
   length (filter is_screenshot (trace (snd (main e (init_world fs))))) \<le> 1 \<and>
   (\<forall>c \<in> set (trace (snd (main e (init_world fs)))).
      is_screenshot c \<longrightarrow> c = Screenshot png_path None) \<and>
   fst (main e (init_world fs')) = fst (main e (init_world fs)) \<and>
   trace (snd (main e (init_world fs'))) = trace (snd (main e (init_world fs))) \<and>
   (fault_free e \<and> heading_found e \<longrightarrow>
      files (snd (main e (init_world fs))) png_path = Some (viewport_png e))"
proof -
  have "files (snd (main e (init_world fs))) = fs \<or>
    files (snd (main e (init_world fs))) = fs(png_path \<mapsto> viewport_png e)"
    using main_files [of e "init_world fs"] by (simp add: init_world_simps)
  moreover have "length (filter is_screenshot (trace (snd (main e (init_world fs))))) \<le> 1"
    using main_shoots_once [of e "init_world fs"] by (simp add: init_world_simps)
  moreover have "\<forall>c \<in> set (trace (snd (main e (init_world fs)))).
      is_screenshot c \<longrightarrow> c = Screenshot png_path None"
    by (blast intro: trace_screenshot)
  moreover have "fst (main e (init_world fs')) = fst (main e (init_world fs)) \<and>
      trace (snd (main e (init_world fs'))) = trace (snd (main e (init_world fs)))"
    using main_independent_of_files [where e = e and w = "init_world fs" and fs = fs']
    by (simp add: init_world_def)
  moreover have "fault_free e \<and> heading_found e \<longrightarrow>
      files (snd (main e (init_world fs))) png_path = Some (viewport_png e)"
    by (simp add: main_success)
  ultimately show ?thesis by blast
qed

theorem only_the_png_is_written_witness:
  "fault_free env_ok \<and> heading_found env_ok \<and>
   old_files png_path = Some ''old image'' \<and>
   files (snd (main env_ok (init_world old_files))) png_path = Some ''viewport'' \<and>
   files (snd (main env_ok (init_world old_files))) ''README.md'' = Some ''notes'' \<and>
   files (snd (main env_ok (init_world old_files))) = old_files(png_path \<mapsto> ''viewport'')"
proof -
  note T = only_the_png_is_written [of env_ok old_files old_files]
  have shot: "files (snd (main env_ok (init_world old_files))) png_path = Some ''viewport''"
    using T env_ok_fault_free env_ok_found by (simp add: env_ok_images)
  have old: "old_files png_path = Some ''old image''"
    by (simp add: old_files_def png_path_def)
  have "files (snd (main env_ok (init_world old_files))) \<noteq> old_files"
    using shot old by auto
  then have eq: "files (snd (main env_ok (init_world old_files))) = old_files(png_path \<mapsto> ''viewport'')"
    using T by (simp add: env_ok_images)
  have "(old_files(png_path \<mapsto> ''viewport'')) ''README.md'' = Some ''notes''"
    by (simp add: old_files_def png_path_def)
  then show ?thesis
    using eq shot old env_ok_fault_free env_ok_found by (simp add: png_path_def)
qed

text \<open>
  C7. The script reads neither its command line nor its environment variables. Two
  invocations that differ only in them have the same exit status and leave the same world
  (the same calls with the same arguments, the same files), but for the command line and
  the variables themselves. Whatever the invocation and whatever the library answers, the
  calls of a run before its last one are an initial part of one fixed sequence, with the
  URL, the frame selector, the role and name, the timeout and the output path of the
  source; so two runs make the same calls as far as both go.
\<close>

theorem hardcoded_calls_whatever_the_invocation:
  "fst (script i e w) = fst (script i' e w) \<and>
   snd (script i e w) = (snd (script i' e w))\<lparr>sys_argv := argv i, os_environ := environ i\<rparr> \<and>
   prefix (butlast (trace (snd (script i e (init_world fs)))))
     [Sync_playwright_enter, Chromium_launch True, New_page,
      Goto ''http://localhost:6006/?path=/story/industrymarkdown-slidepresentationwiththemeswitcher--theme-switcher-demo'',
      Frame_locator ''#storybook-preview-iframe'',
      Get_by_role ''heading'' ''Theme Switcher Demo'' None, To_be_visible 30000,
      Screenshot ''jules-scratch/verification/theme-packaging-verification.png'' None,
      Browser_close, Sync_playwright_exit] \<and>
   (prefix (butlast (trace (snd (script i e (init_world fs)))))
      (butlast (trace (snd (script i' e' (init_world fs'))))) \<or>
    prefix (butlast (trace (snd (script i' e' (init_world fs')))))
      (butlast (trace (snd (script i e (init_world fs))))))"
proof -
  have lit: "prefix (butlast (trace (snd (script j d (init_world gs))))) script_calls"
    for j d gs
  proof -
    have "prefix (take (steps_done d) script_steps) script_steps"
      by (rule take_is_prefix)
    then show ?thesis
      by (simp add: script_snd main_trace_eq init_world_simps script_calls_def butlast_append)
  qed
  have "fst (script i e w) = fst (script i' e w)"
    by (simp add: script_fst)
  moreover have "snd (script i e w) =
      (snd (script i' e w))\<lparr>sys_argv := argv i, os_environ := environ i\<rparr>"
    by (simp add: script_snd)
  moreover have "prefix (butlast (trace (snd (script i e (init_world fs)))))
     [Sync_playwright_enter, Chromium_launch True, New_page,
      Goto ''http://localhost:6006/?path=/story/industrymarkdown-slidepresentationwiththemeswitcher--theme-switcher-demo'',
      Frame_locator ''#storybook-preview-iframe'',
      Get_by_role ''heading'' ''Theme Switcher Demo'' None, To_be_visible 30000,
      Screenshot ''jules-scratch/verification/theme-packaging-verification.png'' None,
      Browser_close, Sync_playwright_exit]"
    using lit [of i e fs]
    by (simp add: script_calls_def script_steps_def story_url_def preview_iframe_def
        heading_name_def png_path_def)
  moreover have "prefix (butlast (trace (snd (script i e (init_world fs)))))
      (butlast (trace (snd (script i' e' (init_world fs'))))) \<or>
    prefix (butlast (trace (snd (script i' e' (init_world fs')))))
      (butlast (trace (snd (script i e (init_world fs)))))"
    using lit [of i e fs] lit [of i' e' fs'] by (rule prefix_same_cases)
  ultimately show ?thesis by blast
qed

theorem hardcoded_calls_whatever_the_invocation_witness:
  "argv other_run \<noteq> argv plain_run \<and> environ other_run \<noteq> environ plain_run \<and>
   fst (script other_run env_ok (init_world Map.empty)) =
     fst (script plain_run env_ok (init_world Map.empty)) \<and>
   trace (snd (script other_run env_ok (init_world Map.empty))) =
     trace (snd (script plain_run env_ok (init_world Map.empty))) \<and>
   files (snd (script other_run env_ok (init_world Map.empty))) =
     files (snd (script plain_run env_ok (init_world Map.empty))) \<and>
   sys_argv (snd (script other_run env_ok (init_world Map.empty))) = argv other_run"
proof -
  note T = hardcoded_calls_whatever_the_invocation
    [of other_run env_ok "init_world Map.empty" plain_run Map.empty env_ok Map.empty]
  have a: "argv other_run \<noteq> argv plain_run"
    by (simp add: other_run_def plain_run_def)
  have "environ other_run ''PWDEBUG'' \<noteq> environ plain_run ''PWDEBUG''"
    by (simp add: other_run_def plain_run_def)
  then have b: "environ other_run \<noteq> environ plain_run"
    by metis
  have s: "snd (script other_run env_ok (init_world Map.empty)) =
      (snd (script plain_run env_ok (init_world Map.empty)))
        \<lparr>sys_argv := argv other_run, os_environ := environ other_run\<rparr>"
    using T by blast
  have "fst (script other_run env_ok (init_world Map.empty)) =
     fst (script plain_run env_ok (init_world Map.empty))"
    using T by blast
  then show ?thesis
    using a b by (simp add: s)
qed

text \<open>
  C8. A second successful run, started on the files the first one left, exits with status
  0, adds no file and leaves its own capture at the fixed path; with the same rendering
  the files are exactly those the first run left.
\<close>

theorem second_run_overwrites_the_screenshot:
  assumes "fault_free e1" and "heading_found e1" and "fault_free e2" and "heading_found e2"
  shows "fst (script i e2 (init_world (files_after i e1 fs))) = 0 \<and>
         dom (files_after i e2 (files_after i e1 fs)) = dom (files_after i e1 fs) \<and>
         files_after i e2 (files_after i e1 fs) png_path = Some (viewport_png e2) \<and>
         files_after i e1 (files_after i e1 fs) = files_after i e1 fs"
  using assms
  by (auto simp: files_after_def script_fst script_snd main_success exit_status_def
      init_world_simps)

theorem second_run_overwrites_the_screenshot_witness:
  "fault_free env_ok \<and> heading_found env_ok \<and>
   fst (script plain_run env_ok (init_world (files_after plain_run env_ok Map.empty))) = 0 \<and>
   dom (files_after plain_run env_ok (files_after plain_run env_ok Map.empty)) = {png_path} \<and>
   files_after plain_run env_ok (files_after plain_run env_ok Map.empty) png_path = Some ''viewport''"
proof -
  have "files_after plain_run env_ok Map.empty = [png_path \<mapsto> ''viewport'']"
    by (simp add: files_after_def script_snd main_success [OF env_ok_fault_free env_ok_found]
        init_world_simps env_ok_images)
  then show ?thesis
    using second_run_overwrites_the_screenshot
      [OF env_ok_fault_free env_ok_found env_ok_fault_free env_ok_found, of plain_run Map.empty]
      env_ok_fault_free env_ok_found
    by (simp add: env_ok_images)
qed

text \<open>
  C9. The locator is scoped to the frame \<open>#storybook-preview-iframe\<close> and asks for role
  \<open>heading\<close> with the plain name \<open>Theme Switcher Demo\<close> and no \<open>exact\<close>. So a heading of
  that frame whose accessible name contains the name, in any case, is selected, and when
  it is visible in time the wait is satisfied and the run succeeds.
\<close>

theorem heading_containing_the_name_satisfies_the_wait:
  assumes "fault_free e"
    and "el \<in> set (frame_elements e story_url preview_iframe)"
    and "el_role el = ''heading''"
    and "map lower (el_name el) = a @ map lower heading_name @ b"
    and "el_visible_at el = Some t" and "t < 30000"
  shows "heading_locator = RoleLoc (FrameLoc ''#storybook-preview-iframe'') ''heading''
           ''Theme Switcher Demo'' None \<and>
         selects heading_locator el \<and> heading_found e \<and>
         fst (script i e (init_world fs)) = 0 \<and>
         Frame_locator ''#storybook-preview-iframe''
           \<in> set (trace (snd (script i e (init_world fs)))) \<and>
         Get_by_role ''heading'' ''Theme Switcher Demo'' None
           \<in> set (trace (snd (script i e (init_world fs))))"
proof -
  have m: "name_matches None heading_name (el_name el)"
    using assms(4) by (rule name_matches_contains)
  then have f: "heading_found e"
    using assms heading_foundI by blast
  have "selects heading_locator el"
    using m assms(3) by (simp add: heading_locator_def)
  then show ?thesis
    using f assms(1)
    by (simp add: script_fst script_snd main_success exit_status_def init_world_simps
        script_calls_def script_steps_def heading_locator_def preview_iframe_def
        heading_name_def)
qed

theorem heading_containing_the_name_satisfies_the_wait_witness:
  "fault_free env_extended \<and>
   \<lparr>el_role = ''heading'', el_name = ''Theme Switcher Demo Extended'', el_visible_at = Some 1200\<rparr>
     \<in> set (frame_elements env_extended story_url preview_iframe) \<and>
   map lower ''Theme Switcher Demo Extended'' = [] @ map lower heading_name @ '' extended'' \<and>
   (1200::nat) < 30000 \<and>
   heading_found env_extended \<and>
   fst (script plain_run env_extended (init_world Map.empty)) = 0"
  using heading_containing_the_name_satisfies_the_wait [of env_extended
      "\<lparr>el_role = ''heading'', el_name = ''Theme Switcher Demo Extended'', el_visible_at = Some 1200\<rparr>"
      "[]" "'' extended''" 1200 plain_run Map.empty]
  by (simp add: env_defs fault_free_def script_calls_def script_steps_def heading_name_def
      lower_def)

text \<open>
  C10. Code inside the \<open>with\<close> block runs with the driver started. Once the block is
  entered, its exit is the last call of the run, on the path where nothing fails and on
  the path where the wait fails and \<open>browser.close()\<close> is skipped; the exit stops the
  driver, whatever the world was before, unless the exit itself raises, and then its
  exception is what leaves \<open>main\<close>.
\<close>

theorem driver_exit_runs_on_both_paths:
  assumes "raises e Sync_playwright_enter = None" and "trace w = []"
  shows "fst (with_sync_playwright e (\<lambda>p v. (Inr (driver_running v), v)) w)
           = (case raises e Sync_playwright_exit of None \<Rightarrow> Inr True | Some x \<Rightarrow> Inl x) \<and>
         last (trace (snd (main e w))) = Sync_playwright_exit \<and>
         (raises e Sync_playwright_exit = None \<longrightarrow> \<not> driver_running (snd (main e w))) \<and>
         (\<forall>x. raises e Sync_playwright_exit = Some x \<longrightarrow> fst (main e w) = Inl x) \<and>
         (\<not> heading_found e \<longrightarrow>
            fst (main e w) \<noteq> Inr () \<and> Browser_close \<notin> set (trace (snd (main e w))))"
proof -
  have "fst (with_sync_playwright e (\<lambda>p v. (Inr (driver_running v), v)) w)
           = (case raises e Sync_playwright_exit of None \<Rightarrow> Inr True | Some x \<Rightarrow> Inl x)"
    using assms(1) by (simp add: with_sync_playwright_def log_call_def Let_def split: option.splits)
  moreover have "last (trace (snd (main e w))) = Sync_playwright_exit"
    using assms(1) by (rule main_last_call)
  moreover have "raises e Sync_playwright_exit = None \<longrightarrow> \<not> driver_running (snd (main e w))"
    using assms(1) main_driver by blast
  moreover have "\<forall>x. raises e Sync_playwright_exit = Some x \<longrightarrow> fst (main e w) = Inl x"
    using assms(1) main_exit_raises by blast
  moreover have "\<not> heading_found e \<longrightarrow>
      fst (main e w) \<noteq> Inr () \<and> Browser_close \<notin> set (trace (snd (main e w)))"
    using main_failed_wait(1) [of e w] main_failed_wait_trace(2) [of e w] assms(2)
    by simp
  ultimately show ?thesis by blast
qed

theorem driver_exit_runs_on_both_paths_witness:
  "raises env_never Sync_playwright_enter = None \<and>
   raises env_never Sync_playwright_exit = None \<and>
   trace ((init_world Map.empty)\<lparr>driver_running := True\<rparr>) = [] \<and>
   \<not> heading_found env_never \<and>
   last (trace (snd (main env_never ((init_world Map.empty)\<lparr>driver_running := True\<rparr>))))
     = Sync_playwright_exit \<and>
   \<not> driver_running (snd (main env_never ((init_world Map.empty)\<lparr>driver_running := True\<rparr>))) \<and>
   fst (main env_never ((init_world Map.empty)\<lparr>driver_running := True\<rparr>)) \<noteq> Inr () \<and>
   Browser_close
     \<notin> set (trace (snd (main env_never ((init_world Map.empty)\<lparr>driver_running := True\<rparr>)))) \<and>
   raises env_ok Sync_playwright_enter = None \<and> raises env_ok Sync_playwright_exit = None \<and>
   last (trace (snd (main env_ok (init_world Map.empty)))) = Sync_playwright_exit \<and>
   \<not> driver_running (snd (main env_ok (init_world Map.empty)))"
proof -
  have a: "raises env_ok Sync_playwright_enter = None"
    by (simp add: env_defs)
  have b: "raises env_ok Sync_playwright_exit = None"
    by (simp add: env_defs)
  have t: "trace ((init_world Map.empty)\<lparr>driver_running := True\<rparr>) = []"
    by (simp add: init_world_simps)
  have u: "trace (init_world Map.empty) = []"
    by (simp add: init_world_simps)
  show ?thesis
    using driver_exit_runs_on_both_paths [OF env_never_enter t]
      driver_exit_runs_on_both_paths [OF a u]
      a b t env_never_enter env_never_exit env_never_not_found
    by simp
qed

end
